theory Spec2Isabelle
  imports Complex_Main
begin

section \<open>Frequency-domain analysis workflow: data model\<close>

text \<open>
  The notebook works on labelled floating-point arrays. A floating-point sample is a real
  number or the missing-value marker NaN; such an element is a \<open>real option\<close>, with
  \<open>None\<close> for NaN. A two-dimensional map over \<open>(nlat, nlon)\<close> is a list of
  rows; a three-dimensional array over \<open>(time, nlat, nlon)\<close> or
  \<open>(freq_time, nlat, nlon)\<close> is a list of maps, leading axis first. Every array
  carries the extents of its spatial axes, as a labelled array does also when its
  leading axis is empty.
\<close>

type_synonym sample = "real option"
type_synonym 'a grid = "'a list list"

datatype error = ValueError | IndexError | FileNotFoundError | ConfigurationError

text \<open>A map of \<open>n\<close> rows of \<open>m\<close> cells each.\<close>

definition wf_grid :: "nat \<Rightarrow> nat \<Rightarrow> 'a grid \<Rightarrow> bool" where
  "wf_grid n m g = (length g = n \<and> list_all (\<lambda>row. length row = m) g)"

text \<open>A map over \<open>(nlat, nlon)\<close>, such as \<open>ds_orig.SST[0]\<close> or \<open>mask\<close>.\<close>

record 'a map2 =
  m_nlat :: nat
  m_nlon :: nat
  cells :: "'a grid"

text \<open>
  An array over \<open>(time, nlat, nlon)\<close>: \<open>ds_orig.SST\<close> and \<open>Txr_rechunked\<close>.
  \<open>time_chunks\<close> holds the sizes of the blocks into which the \<open>time\<close> axis is
  chunked.
\<close>

record timeseries =
  time_chunks :: "nat list"
  t_nlat :: nat
  t_nlon :: nat
  samples :: "sample grid list"

text \<open>
  An array over \<open>(freq_time, nlat, nlon)\<close> with the coordinate \<open>freq_time\<close> of its
  leading axis: the output of the transform and everything derived from it.
\<close>

record 'a spectrum =
  freq_time :: "real list"
  nlat :: nat
  nlon :: nat
  data :: "'a grid list"

text \<open>The positional slice \<open>xs[i:j]\<close> for non-negative \<open>i\<close>, \<open>j\<close>.\<close>

definition isel_slice :: "nat \<times> nat \<Rightarrow> 'a list \<Rightarrow> 'a list" where
  "isel_slice locs xs = take (snd locs - fst locs) (drop (fst locs) xs)"

section \<open>Step 1: clearing the target paths and rechunking\<close>

text \<open>
  The object store behind \<open>gcs\<close> is the set of the paths of its objects.
  \<open>gcs.rm(path)\<close> deletes the object at \<open>path\<close> and raises
  \<open>FileNotFoundError\<close> when there is none.
\<close>

type_synonym gcs = "string set"

definition rm :: "gcs \<Rightarrow> string \<Rightarrow> error + gcs" where
  "rm fs path = (if path \<in> fs then Inr (fs - {path}) else Inl FileNotFoundError)"

text \<open>
  \<open>clear_targets\<close>: the loop over \<open>tmp_path, target_path\<close>. The handler passes on
  \<open>FileNotFoundError\<close> only; any other error leaves the loop.
\<close>

fun clear_paths :: "string list \<Rightarrow> gcs \<Rightarrow> error + gcs" where
  "clear_paths [] fs = Inr fs"
| "clear_paths (path # paths) fs =
     (case rm fs (path @ ''/.zarray'') of
        Inr fs' \<Rightarrow> clear_paths paths fs'
      | Inl FileNotFoundError \<Rightarrow> clear_paths paths fs
      | Inl e \<Rightarrow> Inl e)"

definition clear_targets :: "string \<Rightarrow> string \<Rightarrow> gcs \<Rightarrow> error + gcs" where
  "clear_targets tmp_path target_path fs = clear_paths [tmp_path, target_path] fs"

text \<open>
  Modelled from the spec: the chunked array storage, which belongs to the external
  storage library. An array over three axes is stored as rectangular blocks of a fixed
  chunk shape, one block per chunk index; a block that is absent, and the part of an
  edge block beyond the array, reads as the fill value NaN.
\<close>

type_synonym index3 = "nat \<times> nat \<times> nat"

record zarr_array =
  z_shape :: index3
  z_chunks :: index3
  z_itemsize :: nat
  z_block :: "index3 \<Rightarrow> sample grid list option"

definition get_item :: "zarr_array \<Rightarrow> index3 \<Rightarrow> sample" where
  "get_item z ix =
     (case (z_chunks z, ix) of
        ((c0, c1, c2), (t, i, j)) \<Rightarrow>
          (case z_block z (t div c0, i div c1, j div c2) of
             None \<Rightarrow> None
           | Some b \<Rightarrow> b ! (t mod c0) ! (i mod c1) ! (j mod c2)))"

text \<open>
  Modelled from the spec: \<open>dsa.from_zarr\<close>, reading the stored array back element by
  element.
\<close>

definition from_zarr :: "zarr_array \<Rightarrow> sample grid list" where
  "from_zarr z =
     (case z_shape z of
        (n0, n1, n2) \<Rightarrow>
          map (\<lambda>t. map (\<lambda>i. map (\<lambda>j. get_item z (t, i, j)) [0..<n2]) [0..<n1]) [0..<n0])"

text \<open>
  Modelled from the spec: one task of the rewrite, which belongs to the external
  rechunking library. The task builds the block with chunk index \<open>(a, b, c)\<close> of the
  new layout from the elements of the array it reads.
\<close>

definition inside :: "index3 \<Rightarrow> index3 \<Rightarrow> bool" where
  "inside shape ix =
     (case (shape, ix) of ((n0, n1, n2), (t, i, j)) \<Rightarrow> t < n0 \<and> i < n1 \<and> j < n2)"

definition copy_block :: "zarr_array \<Rightarrow> index3 \<Rightarrow> index3 \<Rightarrow> sample grid list" where
  "copy_block src cs k =
     (case (cs, k) of
        ((c0, c1, c2), (a, b, c)) \<Rightarrow>
          map (\<lambda>x. map (\<lambda>y. map (\<lambda>z.
                 if inside (z_shape src) (a * c0 + x, b * c1 + y, c * c2 + z)
                 then get_item src (a * c0 + x, b * c1 + y, c * c2 + z) else None)
               [0..<c2]) [0..<c1]) [0..<c0])"

definition n_blocks :: "index3 \<Rightarrow> index3 \<Rightarrow> index3" where
  "n_blocks shape cs =
     (case (shape, cs) of
        ((n0, n1, n2), (c0, c1, c2)) \<Rightarrow>
          ((n0 + c0 - 1) div c0, (n1 + c1 - 1) div c1, (n2 + c2 - 1) div c2))"

text \<open>
  Modelled from the spec: one pass of the rewrite, the array written again in the chunk
  shape \<open>cs\<close>, one task per block of the new layout.
\<close>

definition copy_array :: "zarr_array \<Rightarrow> index3 \<Rightarrow> zarr_array" where
  "copy_array src cs =
     \<lparr>z_shape = z_shape src, z_chunks = cs, z_itemsize = z_itemsize src,
      z_block = (\<lambda>k. if inside (n_blocks (z_shape src) cs) k
                      then Some (copy_block src cs k) else None)\<rparr>"

definition n_tasks :: "zarr_array \<Rightarrow> nat" where
  "n_tasks z = (case n_blocks (z_shape z) (z_chunks z) of (b0, b1, b2) \<Rightarrow> b0 * b1 * b2)"

text \<open>
  Modelled from the spec: the deferred plan returned by \<open>rechunk\<close>, the source array
  with the intermediate and the target chunk shape. The intermediate chunk shape is
  decided by the planner of the external library, a parameter of the model.
\<close>

record plan =
  p_source :: zarr_array
  p_int_chunks :: index3
  p_target_chunks :: index3

type_synonym planner = "zarr_array \<Rightarrow> index3 \<Rightarrow> nat \<Rightarrow> index3"

definition chunk_bytes :: "nat \<Rightarrow> index3 \<Rightarrow> nat" where
  "chunk_bytes itemsize cs = (case cs of (c0, c1, c2) \<Rightarrow> itemsize * c0 * c1 * c2)"

text \<open>
  Modelled from the spec: \<open>rechunk(array, target_chunks, max_mem, store_target,
  temp_store=store_tmp)\<close>, which belongs to the external rechunking library. The memory
  budget must exceed the byte size of one target chunk plus the working overhead, or the
  call fails with a configuration error; otherwise it returns the plan and writes
  nothing.
\<close>

definition rechunk :: "planner \<Rightarrow> nat \<Rightarrow> zarr_array \<Rightarrow> index3 \<Rightarrow> nat \<Rightarrow> error + plan" where
  "rechunk planner overhead array target_chunks max_mem =
     (if max_mem > chunk_bytes (z_itemsize array) target_chunks + overhead
      then Inr \<lparr>p_source = array,
                p_int_chunks = planner array target_chunks max_mem,
                p_target_chunks = target_chunks\<rparr>
      else Inl ConfigurationError)"

text \<open>
  The two stores and the worker pool, as far as the rewrite touches them: the array at
  the temporary path, the array at the target path, and the number of tasks dispatched
  to the pool so far.
\<close>

record cloud =
  store_tmp :: "zarr_array option"
  store_target :: "zarr_array option"
  dispatched :: nat

text \<open>
  Modelled from the spec: \<open>r.execute()\<close>, a run in which every task succeeds. The
  source is written to the staging store in the intermediate chunk shape, and the
  staged array is written to the target store in the target chunk shape.
\<close>

definition execute :: "plan \<Rightarrow> cloud \<Rightarrow> cloud" where
  "execute r st =
     (let staged = copy_array (p_source r) (p_int_chunks r);
          written = copy_array staged (p_target_chunks r)
      in st\<lparr>store_tmp := Some staged, store_target := Some written,
            dispatched := dispatched st + n_tasks staged + n_tasks written\<rparr>)"

text \<open>
  The two cells of the notebook, \<open>r = rechunk(...)\<close> and then \<open>r.execute(retries=10)\<close>:
  an error of the first cell leaves \<open>r\<close> unbound and the second cell is not reached.
\<close>

definition rechunk_then_execute ::
  "planner \<Rightarrow> nat \<Rightarrow> zarr_array \<Rightarrow> index3 \<Rightarrow> nat \<Rightarrow> cloud \<Rightarrow> (error + unit) \<times> cloud" where
  "rechunk_then_execute planner overhead array target_chunks max_mem st =
     (case rechunk planner overhead array target_chunks max_mem of
        Inl e \<Rightarrow> (Inl e, st)
      | Inr r \<Rightarrow> (Inr (), execute r st))"

definition positive :: "index3 \<Rightarrow> bool" where
  "positive cs = (case cs of (c0, c1, c2) \<Rightarrow> 0 < c0 \<and> 0 < c1 \<and> 0 < c2)"

section \<open>Step 2: the power spectrum\<close>

text \<open>
  \<open>var.chunk({'time': None})\<close> on an array that is already chunked: the entry
  \<open>None\<close> for an axis leaves the blocks of that axis as they are, and the axes that
  are not named keep theirs. The comment beside the call reads "there can be no
  chunking in the time dimension".
\<close>

definition chunk_time_None :: "timeseries \<Rightarrow> timeseries" where
  "chunk_time_None var = var\<lparr>time_chunks := time_chunks var\<rparr>"

text \<open>\<open>var.fillna(v)\<close>: every NaN becomes \<open>v\<close>, every other sample stays.\<close>

definition fill :: "real \<Rightarrow> sample \<Rightarrow> sample" where
  "fill v s = (case s of None \<Rightarrow> Some v | Some x \<Rightarrow> Some x)"

definition fillna :: "real \<Rightarrow> timeseries \<Rightarrow> timeseries" where
  "fillna v var = var\<lparr>samples := map (map (map (fill v))) (samples var)\<rparr>"

text \<open>
  The transform of the external library, \<open>xrft.power_spectrum\<close>, is a parameter of the
  model: a function of the array and of the arguments \<open>dim\<close>, \<open>real\<close>,
  \<open>detrend\<close> and \<open>window\<close> that returns a complex-valued array over
  \<open>(freq_time, nlat, nlon)\<close>.
\<close>

type_synonym transform =
  "timeseries \<Rightarrow> string \<Rightarrow> string \<Rightarrow> string \<Rightarrow> bool \<Rightarrow> complex spectrum"

definition single_chunk :: "timeseries \<Rightarrow> bool" where
  "single_chunk var = (length (time_chunks var) = 1)"

definition no_missing :: "timeseries \<Rightarrow> bool" where
  "no_missing var = list_all (list_all (list_all (\<lambda>s. s \<noteq> None))) (samples var)"

text \<open>
  Modelled from the spec: the precondition of the transform call, which belongs to the
  external library. The transform axis must be a single, non-chunked block and the
  data must hold no undefined value; a call that violates it fails.
\<close>

definition power_spectrum ::
  "transform \<Rightarrow> timeseries \<Rightarrow> string \<Rightarrow> string \<Rightarrow> string \<Rightarrow> bool \<Rightarrow> error + complex spectrum" where
  "power_spectrum xf var dim_arg real_arg detrend_arg window_arg =
     (if single_chunk var \<and> no_missing var
      then Inr (xf var dim_arg real_arg detrend_arg window_arg)
      else Inl ValueError)"

definition take_power_spectrum ::
  "transform \<Rightarrow> timeseries \<Rightarrow> string \<Rightarrow> error + complex spectrum" where
  "take_power_spectrum xf var real_arg =
     (let var' = chunk_time_None var;
          var_filled = fillna 0 var';
          var_hat = power_spectrum xf var_filled ''time'' real_arg ''linear'' True
      in var_hat)"

text \<open>\<open>.real\<close>: the real component of every element.\<close>

definition real_part :: "complex spectrum \<Rightarrow> real spectrum" where
  "real_part da =
     \<lparr>freq_time = freq_time da, nlat = nlat da, nlon = nlon da,
      data = map (map (map Re)) (data da)\<rparr>"

text \<open>
  \<open>.coarsen(nlat=wlat, nlon=wlon).mean()\<close>: the spatial axes are cut into windows of
  \<open>wlat\<close> by \<open>wlon\<close> cells and every window is replaced by the mean of its cells.
  An axis whose length is not a multiple of its window is refused.
\<close>

definition block :: "nat \<Rightarrow> nat \<Rightarrow> 'a grid \<Rightarrow> nat \<Rightarrow> nat \<Rightarrow> 'a list" where
  "block wlat wlon g I J =
     concat (map (\<lambda>i. map (\<lambda>j. g ! i ! j) [J * wlon..<J * wlon + wlon])
       [I * wlat..<I * wlat + wlat])"

definition mean :: "real list \<Rightarrow> real" where
  "mean xs = sum_list xs / real (length xs)"

definition coarsen_grid :: "nat \<Rightarrow> nat \<Rightarrow> nat \<Rightarrow> nat \<Rightarrow> real grid \<Rightarrow> real grid" where
  "coarsen_grid wlat wlon n m g =
     map (\<lambda>I. map (\<lambda>J. mean (block wlat wlon g I J)) [0..<m div wlon]) [0..<n div wlat]"

definition coarsen_mean :: "nat \<Rightarrow> nat \<Rightarrow> real spectrum \<Rightarrow> error + real spectrum" where
  "coarsen_mean wlat wlon da =
     (if nlat da mod wlat \<noteq> 0 \<or> nlon da mod wlon \<noteq> 0 then Inl ValueError
      else Inr \<lparr>freq_time = freq_time da, nlat = nlat da div wlat, nlon = nlon da div wlon,
                data = map (coarsen_grid wlat wlon (nlat da) (nlon da)) (data da)\<rparr>)"

definition coarsen_mean2 :: "nat \<Rightarrow> nat \<Rightarrow> real map2 \<Rightarrow> error + real map2" where
  "coarsen_mean2 wlat wlon a =
     (if m_nlat a mod wlat \<noteq> 0 \<or> m_nlon a mod wlon \<noteq> 0 then Inl ValueError
      else Inr \<lparr>m_nlat = m_nlat a div wlat, m_nlon = m_nlon a div wlon,
                cells = coarsen_grid wlat wlon (m_nlat a) (m_nlon a) (cells a)\<rparr>)"

text \<open>
  The two assignments of the cell "Compute the power spectrum of SST":
  \<open>T_calc_power_spectrum = take_power_spectrum(Txr_rechunked, 'time')\<close> and
  \<open>T_power_spectrum = T_calc_power_spectrum.real.coarsen(nlat=5, nlon=5).mean()\<close>.
\<close>

definition T_calc_power_spectrum :: "transform \<Rightarrow> timeseries \<Rightarrow> error + complex spectrum" where
  "T_calc_power_spectrum xf Txr_rechunked = take_power_spectrum xf Txr_rechunked ''time''"

definition T_power_spectrum :: "transform \<Rightarrow> timeseries \<Rightarrow> error + real spectrum" where
  "T_power_spectrum xf Txr_rechunked =
     (case T_calc_power_spectrum xf Txr_rechunked of
        Inl e \<Rightarrow> Inl e
      | Inr T_calc \<Rightarrow> coarsen_mean 5 5 (real_part T_calc))"

section \<open>Re-masking\<close>

text \<open>\<open>region = dict(nlat=slice(290, 380), nlon=slice(50, 220))\<close>\<close>

definition region_nlat :: "nat \<times> nat" where
  "region_nlat = (290, 380)"

definition region_nlon :: "nat \<times> nat" where
  "region_nlon = (50, 220)"

definition isel_region :: "'a map2 \<Rightarrow> 'a map2" where
  "isel_region a =
     \<lparr>m_nlat = min (snd region_nlat - fst region_nlat) (m_nlat a - fst region_nlat),
      m_nlon = min (snd region_nlon - fst region_nlon) (m_nlon a - fst region_nlon),
      cells = map (isel_slice region_nlon) (isel_slice region_nlat (cells a))\<rparr>"

text \<open>\<open>SST[0]\<close>: the first map along \<open>time\<close>; an empty axis has none.\<close>

definition first_snapshot :: "timeseries \<Rightarrow> error + sample map2" where
  "first_snapshot sst =
     (case samples sst of
        [] \<Rightarrow> Inl IndexError
      | g # _ \<Rightarrow> Inr \<lparr>m_nlat = t_nlat sst, m_nlon = t_nlon sst, cells = g\<rparr>)"

definition notnull :: "sample map2 \<Rightarrow> bool map2" where
  "notnull a = \<lparr>m_nlat = m_nlat a, m_nlon = m_nlon a,
                cells = map (map (\<lambda>s. s \<noteq> None)) (cells a)\<rparr>"

definition astype_int :: "bool map2 \<Rightarrow> int map2" where
  "astype_int a = \<lparr>m_nlat = m_nlat a, m_nlon = m_nlon a,
                   cells = map (map (\<lambda>b. if b then 1 else 0)) (cells a)\<rparr>"

text \<open>The mean of integers is taken in floating point.\<close>

definition as_float :: "int map2 \<Rightarrow> real map2" where
  "as_float a = \<lparr>m_nlat = m_nlat a, m_nlon = m_nlon a,
                 cells = map (map real_of_int) (cells a)\<rparr>"

definition greater_than :: "real \<Rightarrow> real map2 \<Rightarrow> bool map2" where
  "greater_than c a = \<lparr>m_nlat = m_nlat a, m_nlon = m_nlon a,
                       cells = map (map (\<lambda>x. x > c)) (cells a)\<rparr>"

text \<open>
  \<open>mask = (ds_orig.SST[0].notnull().astype(int).coarsen(nlon=5, nlat=5).mean() > 0.2)
  .isel(**region).load()\<close>
\<close>

definition mask :: "timeseries \<Rightarrow> error + bool map2" where
  "mask SST =
     (case first_snapshot SST of
        Inl e \<Rightarrow> Inl e
      | Inr s0 \<Rightarrow>
          (case coarsen_mean2 5 5 (as_float (astype_int (notnull s0))) of
             Inl e \<Rightarrow> Inl e
           | Inr fraction \<Rightarrow> Inr (isel_region (greater_than (2 / 10) fraction))))"

text \<open>
  \<open>T_power_spectrum_NAtl.where(mask)\<close>: a cell keeps its value where the mask holds and
  becomes NaN elsewhere, at every frequency. Arrays whose spatial extents differ
  cannot be aligned.
\<close>

definition where_mask :: "real spectrum \<Rightarrow> bool map2 \<Rightarrow> error + sample spectrum" where
  "where_mask T m =
     (if nlat T \<noteq> m_nlat m \<or> nlon T \<noteq> m_nlon m then Inl ValueError
      else Inr \<lparr>freq_time = freq_time T, nlat = nlat T, nlon = nlon T,
                data = map (\<lambda>g. map (\<lambda>i. map (\<lambda>j. if cells m ! i ! j then Some (g ! i ! j) else None)
                                         [0..<nlon T]) [0..<nlat T]) (data T)\<rparr>)"

text \<open>
  The share of non-missing samples among the 25 source cells of the coarsened cell
  \<open>(I, J)\<close>.
\<close>

definition nonmissing_fraction :: "sample grid \<Rightarrow> nat \<Rightarrow> nat \<Rightarrow> real" where
  "nonmissing_fraction g I J =
     real (length (filter (\<lambda>s. s \<noteq> None) (block 5 5 g I J))) / 25"

section \<open>Step 3: frequency bands\<close>

text \<open>
  A Python \<open>slice(start, stop)\<close> of labels; \<open>None\<close> leaves that end open.
\<close>

type_synonym band_slice = "real option \<times> real option"

text \<open>
  The dictionary \<open>bands\<close> of the notebook, in insertion order (the order in which
  \<open>bands.items()\<close> yields it). Frequencies are in cycles per day.
\<close>

definition bands :: "(string \<times> band_slice) list" where
  "bands =
     [(''> 1 year'', (Some (1 / 3650), Some (1 / 400))),
      (''~ 1 year'', (Some (1 / 370), Some (1 / 360))),
      (''100 days - 1 year'', (Some (1 / 360), Some (1 / 100))),
      (''10 days - 100 days'', (Some (1 / 100), Some (1 / 10))),
      (''< 10 days'', (Some (1 / 10), None))]"

text \<open>
  \<open>.sel(freq_time=band_slice)\<close> is label-based slicing on the coordinate index. For an
  increasing index (the transform returns the non-negative frequencies in increasing
  order) the index is searched for the two labels: the start position is the leftmost
  insertion point of \<open>start\<close>, the stop position the rightmost insertion point of
  \<open>stop\<close>, and the positional slice between them is taken. Label slices thus include
  both end labels, unlike positional slices.
\<close>

definition searchsorted_left :: "real list \<Rightarrow> real \<Rightarrow> nat" where
  "searchsorted_left idx v = length (takeWhile (\<lambda>x. x < v) idx)"

definition searchsorted_right :: "real list \<Rightarrow> real \<Rightarrow> nat" where
  "searchsorted_right idx v = length (takeWhile (\<lambda>x. x \<le> v) idx)"

definition slice_locs :: "real list \<Rightarrow> band_slice \<Rightarrow> nat \<times> nat" where
  "slice_locs idx sl =
     ((case fst sl of None \<Rightarrow> 0 | Some a \<Rightarrow> searchsorted_left idx a),
      (case snd sl of None \<Rightarrow> length idx | Some b \<Rightarrow> searchsorted_right idx b))"

definition sel_freq_time :: "'a spectrum \<Rightarrow> band_slice \<Rightarrow> 'a spectrum" where
  "sel_freq_time da sl =
     (let locs = slice_locs (freq_time da) sl
      in da\<lparr>freq_time := isel_slice locs (freq_time da),
            data := isel_slice locs (data da)\<rparr>)"

text \<open>
  \<open>.mean('freq_time')\<close> reduces the leading axis. On floating-point data the reduction
  skips NaN; a cell with no number among the reduced samples (all of them NaN, or none
  selected) is NaN in the result.
\<close>

definition numbers :: "sample list \<Rightarrow> real list" where
  "numbers vs = concat (map (\<lambda>v. case v of None \<Rightarrow> [] | Some x \<Rightarrow> [x]) vs)"

definition nanmean :: "sample list \<Rightarrow> sample" where
  "nanmean vs = (if numbers vs = [] then None else Some (mean (numbers vs)))"

definition mean_freq_time :: "sample spectrum \<Rightarrow> sample grid" where
  "mean_freq_time da =
     map (\<lambda>i. map (\<lambda>j. nanmean (map (\<lambda>g. g ! i ! j) (data da))) [0..<nlon da])
       [0..<nlat da]"

text \<open>The expression \<open>T_power_spectrum_NAtl.sel(freq_time=band_slice).mean('freq_time')\<close>.\<close>

definition band_mean :: "sample spectrum \<Rightarrow> band_slice \<Rightarrow> sample grid" where
  "band_mean da sl = mean_freq_time (sel_freq_time da sl)"

text \<open>Membership of a frequency in a label slice, both ends included.\<close>

definition in_band :: "band_slice \<Rightarrow> real \<Rightarrow> bool" where
  "in_band sl f =
     ((case fst sl of None \<Rightarrow> True | Some a \<Rightarrow> a \<le> f) \<and>
      (case snd sl of None \<Rightarrow> True | Some b \<Rightarrow> f \<le> b))"

text \<open>
  The reading of a band as the half-open interval \<open>[start, stop)\<close>, as the description
  of the aggregation words it, with the selection and the mean under that reading.
\<close>

definition in_half_open :: "band_slice \<Rightarrow> real \<Rightarrow> bool" where
  "in_half_open sl f =
     ((case fst sl of None \<Rightarrow> True | Some a \<Rightarrow> a \<le> f) \<and>
      (case snd sl of None \<Rightarrow> True | Some b \<Rightarrow> f < b))"

definition half_open_band_mean :: "sample spectrum \<Rightarrow> band_slice \<Rightarrow> sample grid" where
  "half_open_band_mean da sl =
     map (\<lambda>i. map (\<lambda>j. nanmean (map (\<lambda>p. snd p ! i ! j)
                          (filter (\<lambda>p. in_half_open sl (fst p)) (zip (freq_time da) (data da)))))
                [0..<nlon da]) [0..<nlat da]"

section \<open>Label slicing on an increasing index\<close>

lemma takeWhile_lt_Nil: "\<forall>k \<in> set ks. (a::real) \<le> k \<Longrightarrow> takeWhile (\<lambda>x. x < a) ks = []"
  by (cases ks) auto

lemma label_slice_sorted:
  fixes ps :: "(real \<times> 'a) list"
  assumes "sorted (map fst ps)"
  shows "isel_slice (slice_locs (map fst ps) sl) ps = filter (\<lambda>p. in_band sl (fst p)) ps"
  using assms
proof (induction ps)
  case Nil
  then show ?case by (simp add: isel_slice_def)
next
  case (Cons p ps)
  obtain lo hi where sl: "sl = (lo, hi)" by (cases sl)
  have ge: "\<forall>q \<in> set ps. fst p \<le> fst q" using Cons.prems by auto
  have IH: "isel_slice (slice_locs (map fst ps) sl) ps = filter (\<lambda>p. in_band sl (fst p)) ps"
    using Cons by simp
  show ?case
  proof (cases "in_band sl (fst p)")
    case True
    then have "\<forall>q \<in> set ps. case lo of None \<Rightarrow> True | Some a \<Rightarrow> a \<le> fst q"
      using ge by (auto simp: in_band_def sl split: option.splits)
    then have L0: "(case lo of None \<Rightarrow> 0 | Some a \<Rightarrow> searchsorted_left (map fst ps) a) = 0"
      by (auto simp: searchsorted_left_def takeWhile_lt_Nil split: option.splits)
    show ?thesis using True IH L0
      by (auto simp: isel_slice_def slice_locs_def sl in_band_def searchsorted_left_def searchsorted_right_def split: option.splits)
  next
    case False
    show ?thesis 
    proof (cases "case lo of None \<Rightarrow> True | Some a \<Rightarrow> a \<le> fst p")
      case True
      with False obtain b where b: "hi = Some b" "b < fst p"
        by (auto simp: in_band_def sl split: option.splits)
      then have "\<forall>q \<in> set ps. \<not> in_band sl (fst q)" using ge
        by (auto simp: in_band_def sl split: option.splits)
      then have "filter (\<lambda>p. in_band sl (fst p)) ps = []" by (simp add: filter_empty_conv)
      then show ?thesis using False b
        by (simp add:  isel_slice_def slice_locs_def sl searchsorted_right_def)
    next
      case F2: False
      then obtain a where a: "lo = Some a" "fst p < a"
        by (auto split: option.splits)
      show ?thesis
      proof (cases "case hi of None \<Rightarrow> True | Some b \<Rightarrow> fst p \<le> b")
        case True
        then show ?thesis using False IH a
         by (auto simp: isel_slice_def slice_locs_def sl in_band_def searchsorted_left_def searchsorted_right_def split: option.splits)
      next
        case F3: False
        then obtain b where b: "hi = Some b" "b < fst p"
          by (auto split: option.splits)
        then have "\<forall>q \<in> set ps. \<not> in_band sl (fst q)" using ge
          by (auto simp: in_band_def sl split: option.splits)
        then have "filter (\<lambda>p. in_band sl (fst p)) ps = []" by (simp add: filter_empty_conv)
        then show ?thesis using False b
          by (simp add:  isel_slice_def slice_locs_def sl searchsorted_right_def)
      qed
    qed
  qed
qed

lemma isel_slice_zip:
  "isel_slice locs (zip xs ys) = zip (isel_slice locs xs) (isel_slice locs ys)"
  by (simp add: isel_slice_def take_zip drop_zip)

lemma sel_freq_time_zip:
  assumes "sorted (freq_time da)" and "length (data da) = length (freq_time da)"
  shows "zip (freq_time (sel_freq_time da sl)) (data (sel_freq_time da sl)) =
         filter (\<lambda>p. in_band sl (fst p)) (zip (freq_time da) (data da))"
proof -
  let ?ps = "zip (freq_time da) (data da)"
  have fst_ps: "map fst ?ps = freq_time da" using assms(2) by simp
  have "zip (freq_time (sel_freq_time da sl)) (data (sel_freq_time da sl)) =
        isel_slice (slice_locs (map fst ?ps) sl) ?ps"
    by (simp add: sel_freq_time_def Let_def isel_slice_zip fst_ps)
  also have "\<dots> = filter (\<lambda>p. in_band sl (fst p)) ?ps"
    using assms(1) by (intro label_slice_sorted) (simp add: fst_ps)
  finally show ?thesis .
qed

lemma sel_freq_time_length:
  "length (data da) = length (freq_time da) \<Longrightarrow>
   length (data (sel_freq_time da sl)) = length (freq_time (sel_freq_time da sl))"
  by (simp add: sel_freq_time_def Let_def isel_slice_def)

lemma sel_freq_time_coord:
  assumes "sorted (freq_time da)"
  shows "freq_time (sel_freq_time da sl) = filter (in_band sl) (freq_time da)"
proof -
  let ?ps = "map (\<lambda>x. (x, ())) (freq_time da)"
  have fst_ps: "map fst ?ps = freq_time da" by (simp add: comp_def)
  have "freq_time (sel_freq_time da sl) = map fst (isel_slice (slice_locs (map fst ?ps) sl) ?ps)"
    by (simp add: sel_freq_time_def Let_def isel_slice_def fst_ps take_map drop_map comp_def)
  also have "\<dots> = map fst (filter (\<lambda>p. in_band sl (fst p)) ?ps)"
    using assms by (subst label_slice_sorted) (simp_all add: comp_def)
  also have "\<dots> = filter (in_band sl) (freq_time da)"
    by (simp add: filter_map comp_def)
  finally show ?thesis .
qed

lemma sel_freq_time_data:
  assumes "sorted (freq_time da)" and "length (data da) = length (freq_time da)"
  shows "data (sel_freq_time da sl) =
         map snd (filter (\<lambda>p. in_band sl (fst p)) (zip (freq_time da) (data da)))"
proof -
  have "data (sel_freq_time da sl) =
        map snd (zip (freq_time (sel_freq_time da sl)) (data (sel_freq_time da sl)))"
    using sel_freq_time_length [OF assms(2), of sl] by simp
  then show ?thesis by (simp only: sel_freq_time_zip [OF assms])
qed

lemma sel_freq_time_shape:
  "nlat (sel_freq_time da sl) = nlat da" "nlon (sel_freq_time da sl) = nlon da"
  by (simp_all add: sel_freq_time_def Let_def)

lemma nanmean_numbers:
  "nanmean (map Some xs) = (if xs = [] then None else Some (sum_list xs / real (length xs)))"
proof -
  have "numbers (map Some xs) = xs"
    by (induction xs) (simp_all add: numbers_def)
  then show ?thesis by (simp add: nanmean_def mean_def)
qed

section \<open>Band aggregation\<close>

text \<open>
  Claim C1, as the notebook computes it. For a spectrum with an increasing frequency
  coordinate, the band aggregation \<open>sel(freq_time=band_slice).mean('freq_time')\<close> selects
  exactly the bins whose frequency lies in the closed interval between the two labels of
  the slice (both end labels included, an absent label leaving that end open), and every
  cell of the result is the mean, along the frequency axis, of the numbers among the
  selected samples of that cell: the unweighted mean of all of them when none is NaN.
\<close>

theorem band_mean_closed_interval:
  assumes "sorted (freq_time da)" and "length (data da) = length (freq_time da)"
    and "i < nlat da" and "j < nlon da"
  shows "freq_time (sel_freq_time da sl) = filter (in_band sl) (freq_time da) \<and>
         band_mean da sl ! i ! j =
           nanmean (map (\<lambda>p. snd p ! i ! j)
             (filter (\<lambda>p. in_band sl (fst p)) (zip (freq_time da) (data da)))) \<and>
         (map (\<lambda>p. snd p ! i ! j)
             (filter (\<lambda>p. in_band sl (fst p)) (zip (freq_time da) (data da))) = map Some xs \<longrightarrow>
          xs \<noteq> [] \<longrightarrow> band_mean da sl ! i ! j = Some (sum_list xs / real (length xs)))"
proof -
  let ?sel = "filter (\<lambda>p. in_band sl (fst p)) (zip (freq_time da) (data da))"
  have cell: "band_mean da sl ! i ! j = nanmean (map (\<lambda>p. snd p ! i ! j) ?sel)"
    using assms(3,4)
    by (simp add: band_mean_def mean_freq_time_def sel_freq_time_shape
        sel_freq_time_data [OF assms(1,2)] comp_def)
  show ?thesis
    using cell sel_freq_time_coord [OF assms(1)] by (simp add: nanmean_numbers)
qed

text \<open>
  The theorem at a spectrum of three bins around the label \<open>1 / 10\<close>, for the band
  "10 days - 100 days".
\<close>

theorem band_mean_closed_interval_witness:
  "sorted [182 / 1825, 1 / 10, 183 / (1825::real)] \<and>
   band_mean \<lparr>freq_time = [182 / 1825, 1 / 10, 183 / 1825], nlat = 1, nlon = 1,
          data = [[[Some 1]], [[Some 3]], [[Some 5]]]\<rparr> (Some (1 / 100), Some (1 / 10)) ! 0 ! 0 = Some 2"
  using band_mean_closed_interval [of "\<lparr>freq_time = [182 / 1825, 1 / 10, 183 / 1825], nlat = 1, nlon = 1,
          data = [[[Some 1]], [[Some 3]], [[Some 5]]]\<rparr>" 0 0 "(Some (1 / 100), Some (1 / 10))" "[1, 3]"]
  by (simp add: in_band_def nanmean_def numbers_def mean_def)

text \<open>
  Claim C1 as stated, with half-open intervals, fails: the bin at \<open>1 / 10\<close>, the upper
  label of the band "10 days - 100 days", is part of that band's mean.
\<close>

theorem band_mean_half_open_counterexample:
  "band_mean \<lparr>freq_time = [182 / 1825, 1 / 10, 183 / 1825], nlat = 1, nlon = 1,
          data = [[[Some 1]], [[Some 3]], [[Some 5]]]\<rparr> (Some (1 / 100), Some (1 / 10)) = [[Some 2]] \<and>
   half_open_band_mean \<lparr>freq_time = [182 / 1825, 1 / 10, 183 / 1825], nlat = 1, nlon = 1,
          data = [[[Some 1]], [[Some 3]], [[Some 5]]]\<rparr> (Some (1 / 100), Some (1 / 10)) = [[Some 1]]"
  by (simp add: band_mean_def half_open_band_mean_def mean_freq_time_def sel_freq_time_def
      slice_locs_def searchsorted_left_def searchsorted_right_def isel_slice_def
      nanmean_def numbers_def mean_def in_half_open_def)

text \<open>
  Claim C10. The band table leaves a gap: a frequency strictly between \<open>1 / 400\<close> and
  \<open>1 / 370\<close> cycles per day lies in none of the five bands, and a bin at such a
  frequency is not among the bins that the selection of any band returns, so that it
  enters no band mean.
\<close>

theorem bands_gap:
  assumes "1 / 400 < f" and "f < 1 / 370" and "(name, sl) \<in> set bands"
  shows "\<not> in_band sl f \<and>
         (sorted (freq_time da) \<longrightarrow> f \<notin> set (freq_time (sel_freq_time da sl)))"
proof -
  have "\<not> in_band sl f"
    using assms by (auto simp: bands_def in_band_def)
  then show ?thesis
    by (simp add: sel_freq_time_coord)
qed

text \<open>The theorem at the frequency \<open>1 / 380\<close> and the band "~ 1 year".\<close>

theorem bands_gap_witness:
  "1 / 400 < (1 / 380 :: real) \<and> (1 / 380 :: real) < 1 / 370 \<and>
   \<not> in_band (Some (1 / 370), Some (1 / 360)) (1 / 380) \<and>
   1 / 380 \<notin> set (freq_time (sel_freq_time
      \<lparr>freq_time = [1 / 400, 1 / 380, 1 / 370], nlat = 0, nlon = 0, data = ([] :: sample grid list)\<rparr>
      (Some (1 / 370), Some (1 / 360))))"
  using bands_gap [of "1 / 380" "''~ 1 year''" "(Some (1 / 370), Some (1 / 360))"
      "\<lparr>freq_time = [1 / 400, 1 / 380, 1 / 370], nlat = 0, nlon = 0, data = ([] :: sample grid list)\<rparr>"]
  by (simp add: bands_def)

section \<open>The transform call\<close>

lemma no_missing_fillna: "no_missing (fillna v var)"
  by (simp add: no_missing_def fillna_def fill_def list_all_iff split: option.splits)

lemma time_chunks_fillna_chunk: "time_chunks (fillna v (chunk_time_None var)) = time_chunks var"
  by (simp add: fillna_def chunk_time_None_def)

lemma take_power_spectrum_cases:
  "take_power_spectrum xf var real_arg =
     (if single_chunk var
      then Inr (xf (fillna 0 (chunk_time_None var)) ''time'' real_arg ''linear'' True)
      else Inl ValueError)"
  by (simp add: take_power_spectrum_def power_spectrum_def no_missing_fillna single_chunk_def
      time_chunks_fillna_chunk)

text \<open>
  Claim C3 at the array of the notebook, ten years of daily maps in two blocks of 1825
  days: \<open>take_power_spectrum\<close> does not establish the precondition of the transform.
  The chunk step leaves the two blocks of the \<open>time\<close> axis, every missing value
  becomes zero and every other sample stays, and the transform is called on an axis
  that is not a single block, where its precondition fails.
\<close>

theorem take_power_spectrum_two_blocks:
  "time_chunks (chunk_time_None
      \<lparr>time_chunks = [1825, 1825], t_nlat = 1, t_nlon = 1,
       samples = replicate 1825 [[None]] @ replicate 1825 [[Some 1]]\<rparr>) = [1825, 1825] \<and>
   samples (fillna 0 (chunk_time_None
      \<lparr>time_chunks = [1825, 1825], t_nlat = 1, t_nlon = 1,
       samples = replicate 1825 [[None]] @ replicate 1825 [[Some 1]]\<rparr>)) =
     replicate 1825 [[Some 0]] @ replicate 1825 [[Some 1]] \<and>
   no_missing (fillna 0 (chunk_time_None
      \<lparr>time_chunks = [1825, 1825], t_nlat = 1, t_nlon = 1,
       samples = replicate 1825 [[None]] @ replicate 1825 [[Some 1]]\<rparr>)) \<and>
   \<not> single_chunk (fillna 0 (chunk_time_None
      \<lparr>time_chunks = [1825, 1825], t_nlat = 1, t_nlon = 1,
       samples = replicate 1825 [[None]] @ replicate 1825 [[Some 1]]\<rparr>)) \<and>
   take_power_spectrum xf
      \<lparr>time_chunks = [1825, 1825], t_nlat = 1, t_nlon = 1,
       samples = replicate 1825 [[None]] @ replicate 1825 [[Some 1]]\<rparr> real_arg =
     Inl ValueError"
  by (simp add: take_power_spectrum_cases no_missing_fillna single_chunk_def
      time_chunks_fillna_chunk) (simp add: chunk_time_None_def fillna_def fill_def)

section \<open>Coarsening\<close>

lemma nth_isel_slice:
  "i < length (isel_slice locs xs) \<Longrightarrow> isel_slice locs xs ! i = xs ! (fst locs + i)"
  by (cases "fst locs \<le> length xs") (simp_all add: isel_slice_def)

lemma isel_region_cells_nth:
  assumes "fst region_nlat + i < length g" and "i < snd region_nlat - fst region_nlat"
    and "fst region_nlon + j < length (g ! (fst region_nlat + i))"
    and "j < snd region_nlon - fst region_nlon"
  shows "map (isel_slice region_nlon) (isel_slice region_nlat g) ! i ! j =
         g ! (fst region_nlat + i) ! (fst region_nlon + j)"
proof -
  have i: "i < length (isel_slice region_nlat g)"
    using assms(1,2) by (simp add: isel_slice_def)
  then have "map (isel_slice region_nlon) (isel_slice region_nlat g) ! i =
             isel_slice region_nlon (g ! (fst region_nlat + i))"
    by (simp add: nth_isel_slice)
  moreover have "j < length (isel_slice region_nlon (g ! (fst region_nlat + i)))"
    using assms(3,4) by (simp add: isel_slice_def)
  ultimately show ?thesis by (simp add: nth_isel_slice)
qed

lemma coarsen_grid_nth:
  "I < n div wlat \<Longrightarrow> J < m div wlon \<Longrightarrow>
   coarsen_grid wlat wlon n m g ! I ! J = mean (block wlat wlon g I J)"
  by (simp add: coarsen_grid_def)

lemma window_in_range:
  fixes I :: nat
  assumes "I < n div w" and "i < I * w + w"
  shows "i < n"
proof -
  have "Suc I \<le> n div w" using assms(1) by simp
  then have "Suc I * w \<le> n div w * w" by (rule mult_le_mono1)
  also have "\<dots> \<le> n" by simp
  finally show ?thesis using assms(2) by simp
qed

lemma block_map:
  assumes "wf_grid n m g" and "I < n div wlat" and "J < m div wlon"
  shows "block wlat wlon (map (map f) g) I J = map f (block wlat wlon g I J)"
proof -
  have cell: "map (map f) g ! i ! j = f (g ! i ! j)"
    if "i < I * wlat + wlat" and "j < J * wlon + wlon" for i j
  proof -
    have i: "i < length g"
      using window_in_range [OF assms(2) that(1)] assms(1) by (simp add: wf_grid_def)
    then have "length (g ! i) = m"
      using assms(1) by (simp add: wf_grid_def list_all_length)
    then have "j < length (g ! i)"
      using window_in_range [OF assms(3) that(2)] by simp
    with i show ?thesis by simp
  qed
  show ?thesis
    unfolding block_def map_concat
    by (rule arg_cong [where f = concat]) (simp add: cell comp_def)
qed

lemma length_block: "length (block wlat wlon g I J) = wlat * wlon"
  by (simp add: block_def length_concat comp_def sum_list_triv)

lemma sum_list_indicator:
  "sum_list (map (\<lambda>s. real_of_int (if P s then 1 else 0)) xs) = real (length (filter P xs))"
  by (induction xs) simp_all

text \<open>
  Claim C2. Where the transform call returns, it returns the output of the external
  transform on the zero-filled array. Before coarsening, the power value at every
  frequency bin and spatial point is the real component of that complex output, and the
  value reported for a coarsened cell is the mean of these real components over the 5 by
  5 window of the cell.
\<close>

theorem T_power_spectrum_real_part:
  assumes "T_calc_power_spectrum xf Txr = Inr T_calc"
    and "list_all (wf_grid (nlat T_calc) (nlon T_calc)) (data T_calc)"
    and "T_power_spectrum xf Txr = Inr T"
    and "k < length (data T_calc)" and "I < nlat T" and "J < nlon T"
  shows "T_calc = xf (fillna 0 (chunk_time_None Txr)) ''time'' ''time'' ''linear'' True \<and>
         (\<forall>i < nlat T_calc. \<forall>j < nlon T_calc.
            data (real_part T_calc) ! k ! i ! j = Re (data T_calc ! k ! i ! j)) \<and>
         data T ! k ! I ! J = mean (map Re (block 5 5 (data T_calc ! k) I J))"
proof -
  have call: "T_calc = xf (fillna 0 (chunk_time_None Txr)) ''time'' ''time'' ''linear'' True"
    using assms(1)
    by (simp add: T_calc_power_spectrum_def take_power_spectrum_cases split: if_splits)
  have wf: "wf_grid (nlat T_calc) (nlon T_calc) (data T_calc ! k)"
    using assms(2,4) by (simp add: list_all_length)
  have pre: "data (real_part T_calc) ! k ! i ! j = Re (data T_calc ! k ! i ! j)"
    if "i < nlat T_calc" and "j < nlon T_calc" for i j
    using wf that assms(4) by (simp add: real_part_def wf_grid_def list_all_length)
  have T: "coarsen_mean 5 5 (real_part T_calc) = Inr T"
    using assms(1,3) by (simp add: T_power_spectrum_def)
  then have exact: "nlat T_calc mod 5 = 0" "nlon T_calc mod 5 = 0"
    by (auto simp: coarsen_mean_def real_part_def split: if_splits)
  have shape: "nlat T = nlat T_calc div 5" "nlon T = nlon T_calc div 5"
    using T by (auto simp: coarsen_mean_def real_part_def split: if_splits)
  have "data T ! k =
        coarsen_grid 5 5 (nlat T_calc) (nlon T_calc) (map (map Re) (data T_calc ! k))"
    using T assms(4) by (auto simp: coarsen_mean_def real_part_def split: if_splits)
  then have "data T ! k ! I ! J = mean (block 5 5 (map (map Re) (data T_calc ! k)) I J)"
    using assms(5,6) shape by (simp add: coarsen_grid_nth)
  also have "block 5 5 (map (map Re) (data T_calc ! k)) I J =
             map Re (block 5 5 (data T_calc ! k) I J)"
    using wf assms(5,6) shape by (intro block_map) simp_all
  finally show ?thesis using call pre by simp
qed

text \<open>
  The theorem at an array whose \<open>time\<close> axis is one block and at a transform that
  returns \<open>3 + 4\<ii>\<close> at every point of a 5 by 5 map: the reported value is 3.
\<close>

theorem T_power_spectrum_real_part_witness:
  "T_power_spectrum (\<lambda>var d r t w. \<lparr>freq_time = [0], nlat = 5, nlon = 5,
        data = [replicate 5 (replicate 5 (Complex 3 4))]\<rparr>)
     \<lparr>time_chunks = [2], t_nlat = 1, t_nlon = 1, samples = [[[None]], [[Some 2]]]\<rparr> =
     Inr \<lparr>freq_time = [0], nlat = 1, nlon = 1, data = [[[3]]]\<rparr> \<and>
   data \<lparr>freq_time = [0], nlat = 1, nlon = 1, data = [[[3::real]]]\<rparr> ! 0 ! 0 ! 0 =
     mean (map Re (block 5 5 (replicate 5 (replicate 5 (Complex 3 4))) 0 0))"
proof -
  let ?xf = "\<lambda>(var::timeseries) (d::string) (r::string) (t::string) (w::bool).
     \<lparr>freq_time = [0::real], nlat = 5, nlon = 5, data = [replicate 5 (replicate 5 (Complex 3 4))]\<rparr>"
  let ?Txr = "\<lparr>time_chunks = [2], t_nlat = 1, t_nlon = 1, samples = [[[None]], [[Some 2]]]\<rparr>"
  let ?Tc = "\<lparr>freq_time = [0::real], nlat = 5, nlon = 5, data = [replicate 5 (replicate 5 (Complex 3 4))]\<rparr>"
  let ?T = "\<lparr>freq_time = [0], nlat = 1, nlon = 1, data = [[[3::real]]]\<rparr>"
  have h1: "T_calc_power_spectrum ?xf ?Txr = Inr ?Tc"
    by (simp add: T_calc_power_spectrum_def take_power_spectrum_cases single_chunk_def)
  have h2: "list_all (wf_grid (nlat ?Tc) (nlon ?Tc)) (data ?Tc)"
    by (simp add: wf_grid_def list_all_iff)
  have h3: "T_power_spectrum ?xf ?Txr = Inr ?T"
    by (simp add: T_power_spectrum_def T_calc_power_spectrum_def take_power_spectrum_cases
        single_chunk_def coarsen_mean_def real_part_def coarsen_grid_def block_def mean_def
        upt_conv_Cons)
  show ?thesis
    using T_power_spectrum_real_part [OF h1 h2 h3, of 0 0 0] h3 by simp
qed

section \<open>Re-masking\<close>

lemma mask_cell:
  assumes "first_snapshot SST = Inr s0" and "wf_grid (m_nlat s0) (m_nlon s0) (cells s0)"
    and "mask SST = Inr m" and "i < m_nlat m" and "j < m_nlon m"
  shows "cells m ! i ! j \<longleftrightarrow> nonmissing_fraction (cells s0) (290 + i) (50 + j) > 2 / 10"
proof -
  let ?n = "m_nlat s0" and ?m = "m_nlon s0"
  let ?ind = "map (map (\<lambda>s. real_of_int (if s \<noteq> None then 1 else 0))) (cells s0)"
  have exact: "?n mod 5 = 0" "?m mod 5 = 0"
    using assms(1,3)
    by (auto simp: mask_def coarsen_mean2_def as_float_def astype_int_def notnull_def
        split: if_splits)
  have m: "m = isel_region (greater_than (2 / 10)
             \<lparr>m_nlat = ?n div 5, m_nlon = ?m div 5, cells = coarsen_grid 5 5 ?n ?m ?ind\<rparr>)"
    using assms(1,3) exact
    by (simp add: mask_def coarsen_mean2_def as_float_def astype_int_def notnull_def comp_def)
  have ij: "i < 90" "j < 170" and "i < ?n div 5 - 290" and "j < ?m div 5 - 50"
    using assms(4,5)
    by (simp_all add: m isel_region_def greater_than_def region_nlat_def region_nlon_def)
  then have I: "290 + i < ?n div 5" and J: "50 + j < ?m div 5"
    by (simp_all only: less_diff_conv add.commute)
  have rows: "length (coarsen_grid 5 5 ?n ?m ?ind) = ?n div 5"
    by (simp add: coarsen_grid_def)
  have cols: "length (coarsen_grid 5 5 ?n ?m ?ind ! (290 + i)) = ?m div 5"
    using I by (simp add: coarsen_grid_def)
  let ?G = "map (map (\<lambda>x. x > 2 / 10)) (coarsen_grid 5 5 ?n ?m ?ind)"
  have "cells m ! i ! j = ?G ! (fst region_nlat + i) ! (fst region_nlon + j)"
    unfolding m isel_region_def greater_than_def
    using I J rows cols ij
    by (simp only: map2.simps) (rule isel_region_cells_nth, simp_all add: region_nlat_def region_nlon_def)
  also have "\<dots> \<longleftrightarrow> coarsen_grid 5 5 ?n ?m ?ind ! (290 + i) ! (50 + j) > 2 / 10"
    using I J rows cols by (simp add: region_nlat_def region_nlon_def)
  finally have "cells m ! i ! j \<longleftrightarrow> coarsen_grid 5 5 ?n ?m ?ind ! (290 + i) ! (50 + j) > 2 / 10" .
  also have "coarsen_grid 5 5 ?n ?m ?ind ! (290 + i) ! (50 + j) =
             mean (block 5 5 ?ind (290 + i) (50 + j))"
    using I J by (rule coarsen_grid_nth)
  also have "block 5 5 ?ind (290 + i) (50 + j) =
             map (\<lambda>s. real_of_int (if s \<noteq> None then 1 else 0)) (block 5 5 (cells s0) (290 + i) (50 + j))"
    using assms(2) I J by (rule block_map)
  also have "mean \<dots> = nonmissing_fraction (cells s0) (290 + i) (50 + j)"
    by (simp add: mean_def nonmissing_fraction_def sum_list_indicator length_block)
  finally show ?thesis .
qed

text \<open>
  Claim C4. A cell of the mask is valid if and only if more than 0.2 of the 25 source
  samples of the cell are not missing in the first snapshot; in the masked output a cell
  whose share does not exceed 0.2 is NaN at every frequency, whatever its spectral
  value, and a valid cell keeps its value.
\<close>

theorem mask_threshold:
  assumes "first_snapshot SST = Inr s0" and "wf_grid (m_nlat s0) (m_nlon s0) (cells s0)"
    and "mask SST = Inr m" and "where_mask T m = Inr T'"
    and "k < length (data T)" and "i < nlat T" and "j < nlon T"
  shows "(cells m ! i ! j \<longleftrightarrow> nonmissing_fraction (cells s0) (290 + i) (50 + j) > 2 / 10) \<and>
         (nonmissing_fraction (cells s0) (290 + i) (50 + j) \<le> 2 / 10 \<longrightarrow>
            data T' ! k ! i ! j = None) \<and>
         (nonmissing_fraction (cells s0) (290 + i) (50 + j) > 2 / 10 \<longrightarrow>
            data T' ! k ! i ! j = Some (data T ! k ! i ! j))"
proof -
  have shape: "nlat T = m_nlat m" "nlon T = m_nlon m"
    using assms(4) by (auto simp: where_mask_def split: if_splits)
  have valid: "cells m ! i ! j \<longleftrightarrow>
      nonmissing_fraction (cells s0) (290 + i) (50 + j) > 2 / 10"
    using assms(1,2,3) assms(6,7) [unfolded shape] by (rule mask_cell)
  have out: "data T' ! k ! i ! j = (if cells m ! i ! j then Some (data T ! k ! i ! j) else None)"
    using assms(4,5,6,7) by (auto simp: where_mask_def split: if_splits)
  show ?thesis using valid out by auto
qed

text \<open>
  The theorem at a source map in which 5 of the 25 samples of the cell are present: the
  share is exactly 0.2, the cell is invalid and its output is NaN.
\<close>

theorem mask_threshold_witness:
  "first_snapshot \<lparr>time_chunks = [1], t_nlat = 1455, t_nlon = 255,
          samples = [replicate 1455 (replicate 250 None @ [Some 1, None, None, None, None])]\<rparr> =
     Inr \<lparr>m_nlat = 1455, m_nlon = 255,
          cells = replicate 1455 (replicate 250 None @ [Some 1, None, None, None, None])\<rparr> \<and>
   mask \<lparr>time_chunks = [1], t_nlat = 1455, t_nlon = 255,
          samples = [replicate 1455 (replicate 250 None @ [Some 1, None, None, None, None])]\<rparr> =
     Inr \<lparr>m_nlat = 1, m_nlon = 1, cells = [[False]]\<rparr> \<and>
   where_mask \<lparr>freq_time = [0], nlat = 1, nlon = 1, data = [[[7]]]\<rparr>
       \<lparr>m_nlat = 1, m_nlon = 1, cells = [[False]]\<rparr> =
     Inr \<lparr>freq_time = [0], nlat = 1, nlon = 1, data = [[[None]]]\<rparr> \<and>
   nonmissing_fraction (replicate 1455 (replicate 250 None @ [Some 1, None, None, None, None]))
       290 50 = 2 / 10 \<and>
   data \<lparr>freq_time = [0], nlat = 1, nlon = 1, data = [[[None :: sample]]]\<rparr> ! 0 ! 0 ! 0 = None"
proof -
  let ?g = "replicate 1455 (replicate 250 None @ [Some (1::real), None, None, None, None])"
  let ?SST = "\<lparr>time_chunks = [1], t_nlat = 1455, t_nlon = 255, samples = [?g]\<rparr>"
  let ?s0 = "\<lparr>m_nlat = 1455, m_nlon = 255, cells = ?g\<rparr>"
  let ?m = "\<lparr>m_nlat = 1, m_nlon = 1, cells = [[False]]\<rparr>"
  let ?T = "\<lparr>freq_time = [0], nlat = 1, nlon = 1, data = [[[7::real]]]\<rparr>"
  let ?T' = "\<lparr>freq_time = [0], nlat = 1, nlon = 1, data = [[[None :: sample]]]\<rparr>"
  have h1: "first_snapshot ?SST = Inr ?s0"
    by (simp add: first_snapshot_def)
  have h2: "wf_grid (m_nlat ?s0) (m_nlon ?s0) (cells ?s0)"
    by (simp add: wf_grid_def list_all_iff)
  have h3: "mask ?SST = Inr ?m"
    by (simp add: mask_def first_snapshot_def notnull_def astype_int_def as_float_def
        coarsen_mean2_def coarsen_grid_def greater_than_def isel_region_def region_nlat_def
        region_nlon_def isel_slice_def block_def mean_def nth_append take_map drop_map)
  have h4: "where_mask ?T ?m = Inr ?T'"
    by (simp add: where_mask_def)
  have frac: "nonmissing_fraction ?g 290 50 = 2 / 10"
    by (simp add: nonmissing_fraction_def block_def nth_append)
  have "data ?T' ! 0 ! 0 ! 0 = None"
    using mask_threshold [OF h1 h2 h3 h4, of 0 0 0] frac by simp
  with h1 h3 h4 frac show ?thesis by simp
qed

text \<open>
  Claim C9. The mask is derived from the first snapshot only. With \<open>g\<close> the map at
  time index 0, a cell of the mask is valid if and only if more than 0.2 of the 25
  source samples of the cell are not missing in \<open>g\<close>, and the array with any other
  later snapshots (and any other chunking of its time axis) has the same mask.
\<close>

theorem mask_first_snapshot_only:
  assumes "wf_grid n m g"
    and "mask \<lparr>time_chunks = c, t_nlat = n, t_nlon = m, samples = g # later\<rparr> = Inr msk"
    and "i < m_nlat msk" and "j < m_nlon msk"
  shows "(cells msk ! i ! j \<longleftrightarrow> nonmissing_fraction g (290 + i) (50 + j) > 2 / 10) \<and>
         mask \<lparr>time_chunks = c', t_nlat = n, t_nlon = m, samples = g # later'\<rparr> = Inr msk"
proof -
  let ?SST = "\<lparr>time_chunks = c, t_nlat = n, t_nlon = m, samples = g # later\<rparr>"
  let ?s0 = "\<lparr>m_nlat = n, m_nlon = m, cells = g\<rparr>"
  have first: "first_snapshot ?SST = Inr ?s0"
    by (simp add: first_snapshot_def)
  have wf: "wf_grid (m_nlat ?s0) (m_nlon ?s0) (cells ?s0)"
    using assms(1) by simp
  have "cells msk ! i ! j \<longleftrightarrow> nonmissing_fraction (cells ?s0) (290 + i) (50 + j) > 2 / 10"
    using first wf assms(2,3,4) by (rule mask_cell)
  moreover have "mask \<lparr>time_chunks = c', t_nlat = n, t_nlon = m, samples = g # later'\<rparr> =
                 mask ?SST"
    by (simp add: mask_def first_snapshot_def)
  ultimately show ?thesis using assms(2) by simp
qed

text \<open>
  The theorem at a first snapshot in which 10 of the 25 samples of the cell are present,
  followed by a snapshot without any sample: the cell is valid, as it is for the array
  of the first snapshot alone.
\<close>

theorem mask_first_snapshot_only_witness:
  "mask \<lparr>time_chunks = [1, 1], t_nlat = 1455, t_nlon = 255,
          samples = [replicate 1455 (replicate 250 None @ [Some 1, Some 2, None, None, None]),
                     replicate 1455 (replicate 255 None)]\<rparr> =
     Inr \<lparr>m_nlat = 1, m_nlon = 1, cells = [[True]]\<rparr> \<and>
   nonmissing_fraction (replicate 1455 (replicate 250 None @ [Some 1, Some 2, None, None, None]))
       290 50 = 4 / 10 \<and>
   mask \<lparr>time_chunks = [1], t_nlat = 1455, t_nlon = 255,
          samples = [replicate 1455 (replicate 250 None @ [Some 1, Some 2, None, None, None])]\<rparr> =
     Inr \<lparr>m_nlat = 1, m_nlon = 1, cells = [[True]]\<rparr>"
proof -
  let ?g = "replicate 1455 (replicate 250 None @ [Some (1::real), Some 2, None, None, None])"
  let ?msk = "\<lparr>m_nlat = 1, m_nlon = 1, cells = [[True]]\<rparr>"
  have h1: "wf_grid 1455 255 ?g"
    by (simp add: wf_grid_def list_all_iff)
  have h2: "mask \<lparr>time_chunks = [1, 1], t_nlat = 1455, t_nlon = 255,
              samples = ?g # [replicate 1455 (replicate 255 None)]\<rparr> = Inr ?msk"
    by (simp add: mask_def first_snapshot_def notnull_def astype_int_def as_float_def
        coarsen_mean2_def coarsen_grid_def greater_than_def isel_region_def region_nlat_def
        region_nlon_def isel_slice_def block_def mean_def nth_append take_map drop_map)
  have frac: "nonmissing_fraction ?g 290 50 = 4 / 10"
    by (simp add: nonmissing_fraction_def block_def nth_append)
  show ?thesis
    using mask_first_snapshot_only [OF h1 h2, of 0 0 "[1]" "[]"] h2 frac by simp
qed

section \<open>Clearing the target paths\<close>

text \<open>
  \<open>clear_targets\<close> always returns, and it leaves the object store without the array
  metadata \<open>.zarray\<close> at the temporary and at the target path, every other object
  untouched.
\<close>

lemma clear_targets_result:
  "clear_targets tmp_path target_path fs =
     Inr (fs - {tmp_path @ ''/.zarray'', target_path @ ''/.zarray''})"
  by (auto simp: clear_targets_def rm_def)

section \<open>Rechunking\<close>

lemma div_less_n_blocks:
  fixes t :: nat
  assumes "t < n" and "0 < c"
  shows "t div c < (n + c - Suc 0) div c"
proof -
  have "t div c \<le> (n - 1) div c"
    using assms(1) by (intro div_le_mono) simp
  also have "\<dots> < (n - 1 + c) div c"
    using assms(2) by simp
  also have "n - 1 + c = n + c - Suc 0"
    using assms(1) by simp
  finally show ?thesis .
qed

lemma get_item_copy_array:
  assumes "positive cs" and "inside (z_shape src) ix"
  shows "get_item (copy_array src cs) ix = get_item src ix"
proof -
  obtain c0 c1 c2 where cs: "cs = (c0, c1, c2)" by (cases cs)
  obtain t i j where ix: "ix = (t, i, j)" by (cases ix)
  obtain n0 n1 n2 where sh: "z_shape src = (n0, n1, n2)" by (cases "z_shape src")
  have pos: "0 < c0" "0 < c1" "0 < c2" using assms(1) by (simp_all add: positive_def cs)
  have ins: "t < n0" "i < n1" "j < n2" using assms(2) by (simp_all add: inside_def ix sh)
  have blk: "inside (n_blocks (z_shape src) cs) (t div c0, i div c1, j div c2)"
    using pos ins by (simp add: inside_def n_blocks_def sh cs div_less_n_blocks)
  have "get_item (copy_array src cs) ix =
        copy_block src cs (t div c0, i div c1, j div c2) ! (t mod c0) ! (i mod c1) ! (j mod c2)"
    using blk by (simp add: get_item_def copy_array_def cs ix)
  also have "\<dots> = get_item src ix"
    using pos ins by (simp add: copy_block_def cs ix sh inside_def)
  finally show ?thesis .
qed

lemma from_zarr_copy_array:
  assumes "positive cs"
  shows "from_zarr (copy_array src cs) = from_zarr src"
proof -
  obtain n0 n1 n2 where sh: "z_shape src = (n0, n1, n2)" by (cases "z_shape src")
  have "get_item (copy_array src cs) (t, i, j) = get_item src (t, i, j)"
    if "t < n0" "i < n1" "j < n2" for t i j
    using that by (intro get_item_copy_array assms) (simp add: inside_def sh)
  then show ?thesis
    by (simp add: from_zarr_def sh copy_array_def[of src cs, THEN arg_cong[where f=z_shape]])
qed

lemma copy_array_fields:
  "z_shape (copy_array src cs) = z_shape src"
  "z_chunks (copy_array src cs) = cs"
  "z_itemsize (copy_array src cs) = z_itemsize src"
  by (simp_all add: copy_array_def)

text \<open>
  Claim C5. When the memory budget does not exceed the byte size of one target chunk plus
  the working overhead, \<open>rechunk\<close> fails with a configuration error; the plan is
  never executed, so that no task is dispatched and the staging and the target store
  are as they were.
\<close>

theorem rechunk_budget_too_small:
  assumes "max_mem \<le> chunk_bytes (z_itemsize array) target_chunks + overhead"
  shows "rechunk planner overhead array target_chunks max_mem = Inl ConfigurationError \<and>
         rechunk_then_execute planner overhead array target_chunks max_mem st =
           (Inl ConfigurationError, st)"
  using assms by (simp add: rechunk_then_execute_def rechunk_def)

text \<open>
  The theorem at the target chunks of the notebook, \<open>(365 * 5, 90, 180)\<close> with 4-byte
  samples, and a budget of 100 MB.
\<close>

theorem rechunk_budget_too_small_witness:
  "(100000000::nat) \<le> chunk_bytes 4 (365 * 5, 90, 180) + 0 \<and>
   rechunk_then_execute (\<lambda>a t m. (1, 90, 180)) 0
      \<lparr>z_shape = (14965, 2400, 3600), z_chunks = (1, 2400, 3600), z_itemsize = 4,
        z_block = (\<lambda>k. None)\<rparr>
      (365 * 5, 90, 180) 100000000
      \<lparr>store_tmp = None, store_target = None, dispatched = 0\<rparr> =
     (Inl ConfigurationError, \<lparr>store_tmp = None, store_target = None, dispatched = 0\<rparr>)"
  using rechunk_budget_too_small [of 100000000
      "\<lparr>z_shape = (14965, 2400, 3600), z_chunks = (1, 2400, 3600), z_itemsize = 4,
        z_block = (\<lambda>k. None)\<rparr>" "(365 * 5, 90, 180)" 0 "\<lambda>a t m. (1, 90, 180)"
      "\<lparr>store_tmp = None, store_target = None, dispatched = 0\<rparr>"]
  by (simp add: chunk_bytes_def)

text \<open>
  Claim C7. When the budget suffices and the chunk shapes are positive, the rewrite
  succeeds and the array read back from the target store has, element for element, the
  values of the source array and its shape; only the chunk shape is the new one.
\<close>

theorem rechunk_round_trip:
  assumes "chunk_bytes (z_itemsize array) target_chunks + overhead < max_mem"
    and "positive target_chunks" and "positive (planner array target_chunks max_mem)"
  shows "fst (rechunk_then_execute planner overhead array target_chunks max_mem st) = Inr () \<and>
         (\<exists>written.
            store_target (snd (rechunk_then_execute planner overhead array target_chunks max_mem st))
              = Some written \<and>
            from_zarr written = from_zarr array \<and>
            z_shape written = z_shape array \<and>
            z_chunks written = target_chunks)"
  using assms
  by (simp add: rechunk_then_execute_def rechunk_def execute_def Let_def
      from_zarr_copy_array copy_array_fields)

text \<open>
  The theorem at an array of shape \<open>(2, 1, 2)\<close> chunked in time, rewritten to chunks
  of shape \<open>(2, 1, 1)\<close>.
\<close>

theorem rechunk_round_trip_witness:
  "chunk_bytes 4 (2, 1, 1) + 0 < 100 \<and> positive (2, 1, 1) \<and> positive (1, 1, 1) \<and>
   from_zarr (the (store_target (snd (rechunk_then_execute (\<lambda>a t m. (1, 1, 1)) 0
      \<lparr>z_shape = (2, 1, 2), z_chunks = (1, 1, 2), z_itemsize = 4,
        z_block = (\<lambda>k. if k = (0, 0, 0) then Some [[[Some 1, None]]]
                        else if k = (1, 0, 0) then Some [[[Some 3, Some 4]]] else None)\<rparr>
      (2, 1, 1) 100
      \<lparr>store_tmp = None, store_target = None, dispatched = 0\<rparr>)))) =
     [[[Some 1, None]], [[Some 3, Some 4]]]"
  using rechunk_round_trip [of
      "\<lparr>z_shape = (2, 1, 2), z_chunks = (1, 1, 2), z_itemsize = 4,
        z_block = (\<lambda>k. if k = (0, 0, 0) then Some [[[Some 1, None]]]
                        else if k = (1, 0, 0) then Some [[[Some 3, Some 4]]] else None)\<rparr>"
      "(2, 1, 1)" 0 100 "\<lambda>a t m. (1, 1, 1)"
      "\<lparr>store_tmp = None, store_target = None, dispatched = 0\<rparr>"]
  by (auto simp: chunk_bytes_def positive_def from_zarr_def get_item_def upt_conv_Cons)

end
